theory Spec2Isabelle
  imports Main
begin

section \<open>Subprocesses, files and the terminal\<close>

text \<open>
  The scaffolder is one script, \<^verbatim>\<open>bin/index.js\<close>, run top to bottom by Node. What it
  does to the world goes through four doors: \<^verbatim>\<open>execSync\<close> (subprocesses),
  \<^verbatim>\<open>mkdirSync\<close> and \<^verbatim>\<open>writeFileSync\<close> (files), \<^verbatim>\<open>console.log\<close> (terminal) and the
  \<^verbatim>\<open>prompts\<close> library (operator input). The model threads a trace of what went through
  the first three, and reads the world's answers from an environment.

  A subprocess started by \<^verbatim>\<open>execSync\<close> ends in one of three ways. \<^verbatim>\<open>execSync\<close> returns
  normally only for exit status 0 and throws for everything else. The script passes no
  timeout to \<^verbatim>\<open>execSync\<close>, so a timeout can only be one inside the subprocess, which then
  ends with a non-zero status; a subprocess that never ends is not modelled.
\<close>

datatype exec_outcome = Exited nat | Signalled | SpawnFailed

record exec_call =
  command :: string
  exec_cwd :: "string option"

text \<open>
  The only directory call of the script is \<^verbatim>\<open>mkdirSync(dir, { recursive: true })\<close>, which
  creates every missing ancestor and accepts an existing directory.
\<close>

datatype fs_op = MkdirRecursive string | WriteFile string string

text \<open>One constructor for each \<^verbatim>\<open>console.log\<close> of the script (colours and emoji left out),
  and one for the message a failed validation makes the prompt display.\<close>

datatype message =
    Banner
  | OperationCancelled
  | ValidationMessage string
  | ProjectCreated string
  | InstallingWith string
  | NextSteps
  | CdInto string
  | RunDev string

datatype error = ExecError exec_call exec_outcome | FsError fs_op

text \<open>
  The environment: the working directory of the process, how each subprocess ends
  (given the subprocesses run so far, so that the same command may end differently the
  second time), and whether each file operation succeeds (given the operations done so
  far).
\<close>

record env =
  process_cwd :: string
  exec_oracle :: "exec_call list \<Rightarrow> exec_call \<Rightarrow> exec_outcome"
  fs_oracle :: "fs_op list \<Rightarrow> fs_op \<Rightarrow> bool"

record trace =
  exec_log :: "exec_call list"
  fs_log :: "fs_op list"
  console :: "message list"

definition empty_trace :: trace where
  "empty_trace = \<lparr>exec_log = [], fs_log = [], console = []\<rparr>"

text \<open>A statement of the script either completes or throws; both leave a trace.\<close>

type_synonym 'a action = "trace \<Rightarrow> (error + 'a) \<times> trace"

definition and_then :: "'a action \<Rightarrow> ('a \<Rightarrow> 'b action) \<Rightarrow> 'b action" where
  "and_then m f t = (case m t of (Inl err, t') \<Rightarrow> (Inl err, t') | (Inr x, t') \<Rightarrow> f x t')"

definition console_log :: "message \<Rightarrow> unit action" where
  "console_log m t = (Inr (), t\<lparr>console := console t @ [m]\<rparr>)"

definition execSync :: "env \<Rightarrow> string \<Rightarrow> string option \<Rightarrow> unit action" where
  "execSync e cmd dir t =
     (let c = \<lparr>command = cmd, exec_cwd = dir\<rparr>;
          r = exec_oracle e (exec_log t) c;
          t' = t\<lparr>exec_log := exec_log t @ [c]\<rparr>
      in if r = Exited 0 then (Inr (), t') else (Inl (ExecError c r), t'))"

definition mkdirSync :: "env \<Rightarrow> string \<Rightarrow> unit action" where
  "mkdirSync e dir t =
     (if fs_oracle e (fs_log t) (MkdirRecursive dir)
      then (Inr (), t\<lparr>fs_log := fs_log t @ [MkdirRecursive dir]\<rparr>)
      else (Inl (FsError (MkdirRecursive dir)), t))"

definition writeFileSync :: "env \<Rightarrow> string \<Rightarrow> string \<Rightarrow> unit action" where
  "writeFileSync e path content t =
     (if fs_oracle e (fs_log t) (WriteFile path content)
      then (Inr (), t\<lparr>fs_log := fs_log t @ [WriteFile path content]\<rparr>)
      else (Inl (FsError (WriteFile path content)), t))"

section \<open>Paths\<close>

text \<open>
  \<^verbatim>\<open>path.resolve\<close> and \<^verbatim>\<open>path.join\<close> of Node, in their POSIX variant. Node scans
  the path character by character; the model works on the segments between slashes,
  which is what that scan computes: empty segments and \<^verbatim>\<open>.\<close> are dropped, \<^verbatim>\<open>..\<close>
  removes the segment before it, and at the root it is dropped (absolute path) or kept
  (relative path).
\<close>

fun intercalate :: "'a list \<Rightarrow> 'a list list \<Rightarrow> 'a list" where
  "intercalate sep [] = []"
| "intercalate sep [x] = x"
| "intercalate sep (x # y # ys) = x @ sep @ intercalate sep (y # ys)"

fun split_sep :: "string \<Rightarrow> string list" where
  "split_sep [] = [[]]"
| "split_sep (c # cs) =
     (if c = CHR ''/'' then [] # split_sep cs
      else (case split_sep cs of [] \<Rightarrow> [[c]] | s # ss \<Rightarrow> (c # s) # ss))"

fun normalize_segments :: "bool \<Rightarrow> string list \<Rightarrow> string list \<Rightarrow> string list" where
  "normalize_segments allowAboveRoot res [] = rev res"
| "normalize_segments allowAboveRoot res (s # ss) =
     (if s = [] \<or> s = ''.'' then normalize_segments allowAboveRoot res ss
      else if s = ''..'' then
        (if res \<noteq> [] \<and> hd res \<noteq> ''..'' then normalize_segments allowAboveRoot (tl res) ss
         else if allowAboveRoot then normalize_segments allowAboveRoot (''..'' # res) ss
         else normalize_segments allowAboveRoot res ss)
      else normalize_segments allowAboveRoot (s # res) ss)"

definition normalizeString :: "string \<Rightarrow> bool \<Rightarrow> string" where
  "normalizeString path allowAboveRoot =
     intercalate ''/'' (normalize_segments allowAboveRoot [] (split_sep path))"

definition isAbsolute :: "string \<Rightarrow> bool" where
  "isAbsolute path = (case path of [] \<Rightarrow> False | c # _ \<Rightarrow> c = CHR ''/'')"

text \<open>
  \<^verbatim>\<open>resolve\<close> goes through its arguments from the last to the first, and then the
  working directory, until the path collected is absolute; empty arguments are skipped.
\<close>

fun resolve_loop :: "string list \<Rightarrow> string \<Rightarrow> string \<times> bool" where
  "resolve_loop [] resolvedPath = (resolvedPath, False)"
| "resolve_loop (path # paths) resolvedPath =
     (if path = [] then resolve_loop paths resolvedPath
      else if isAbsolute path then (path @ ''/'' @ resolvedPath, True)
      else resolve_loop paths (path @ ''/'' @ resolvedPath))"

definition resolve :: "string \<Rightarrow> string list \<Rightarrow> string" where
  "resolve posixCwd args =
     (case resolve_loop (rev args @ [posixCwd]) [] of
        (resolvedPath, resolvedAbsolute) \<Rightarrow>
          (let p = normalizeString resolvedPath (\<not> resolvedAbsolute)
           in if resolvedAbsolute then CHR ''/'' # p
              else if p \<noteq> [] then p else ''.''))"

definition normalize :: "string \<Rightarrow> string" where
  "normalize path =
     (if path = [] then ''.''
      else
        (let trailingSeparator = (last path = CHR ''/'');
             p = normalizeString path (\<not> isAbsolute path)
         in if p = [] then
              (if isAbsolute path then ''/'' else if trailingSeparator then ''./'' else ''.'')
            else
              (let p' = (if trailingSeparator then p @ ''/'' else p)
               in if isAbsolute path then CHR ''/'' # p' else p')))"

definition join :: "string list \<Rightarrow> string" where
  "join args =
     (let joined = intercalate ''/'' (filter (\<lambda>arg. arg \<noteq> []) args)
      in if joined = [] then ''.'' else normalize joined)"

section \<open>JSON documents and \<^verbatim>\<open>JSON.stringify\<close>\<close>

text \<open>
  The values the script serialises: strings, booleans, arrays, and objects whose keys
  keep the order in which the object literal lists them (none of the keys is an integer
  index, so JavaScript keeps insertion order).
\<close>

datatype json =
    JString string
  | JBool bool
  | JArray "json list"
  | JObject "(string \<times> json) list"

text \<open>
  \<^verbatim>\<open>QuoteJSONString\<close>. A \<^typ>\<open>string\<close> stands for the UTF-8 bytes of the JavaScript
  string: bytes from 0x7F on pass unchanged, as the code points they encode do.
\<close>

definition hex_digit :: "nat \<Rightarrow> char" where
  "hex_digit d = (if d < 10 then char_of (48 + d) else char_of (87 + d))"

definition escape_char :: "char \<Rightarrow> string" where
  "escape_char c =
     (if c = CHR 0x08 then [CHR 0x5C, CHR ''b'']
      else if c = CHR 0x09 then [CHR 0x5C, CHR ''t'']
      else if c = CHR 0x0A then [CHR 0x5C, CHR ''n'']
      else if c = CHR 0x0C then [CHR 0x5C, CHR ''f'']
      else if c = CHR 0x0D then [CHR 0x5C, CHR ''r'']
      else if c = CHR 0x22 then [CHR 0x5C, CHR 0x22]
      else if c = CHR 0x5C then [CHR 0x5C, CHR 0x5C]
      else if (of_char c :: nat) < 32 then
        [CHR 0x5C, CHR ''u'', CHR ''0'', CHR ''0'',
         hex_digit (of_char c div 16), hex_digit (of_char c mod 16)]
      else [c])"

definition quote :: "string \<Rightarrow> string" where
  "quote s = CHR 0x22 # concat (map escape_char s) @ [CHR 0x22]"

definition indentation :: "nat \<Rightarrow> string" where
  "indentation depth = replicate (2 * depth) CHR '' ''"

text \<open>\<^verbatim>\<open>JSON.stringify(value, null, 2)\<close>, at nesting depth \<open>depth\<close>.\<close>

fun stringify :: "nat \<Rightarrow> json \<Rightarrow> string" where
  "stringify depth (JString s) = quote s"
| "stringify depth (JBool b) = (if b then ''true'' else ''false'')"
| "stringify depth (JArray xs) =
     (if xs = [] then ''[]''
      else ''['' @ [CHR 0x0A] @ indentation (Suc depth)
        @ intercalate ('','' @ [CHR 0x0A] @ indentation (Suc depth))
            (map (stringify (Suc depth)) xs)
        @ [CHR 0x0A] @ indentation depth @ '']'')"
| "stringify depth (JObject kvs) =
     (if kvs = [] then ''{}''
      else ''{'' @ [CHR 0x0A] @ indentation (Suc depth)
        @ intercalate ('','' @ [CHR 0x0A] @ indentation (Suc depth))
            (map (\<lambda>(k, v). quote k @ '': '' @ stringify (Suc depth) v) kvs)
        @ [CHR 0x0A] @ indentation depth @ ''}'')"

section \<open>The operator and the prompts\<close>

text \<open>
  The \<^verbatim>\<open>prompts\<close> library is not part of the repository; the model keeps what the
  script relies on. The operator's input is a list of events: \<open>Submit s\<close> is a press
  of return with \<open>s\<close> as the content of the input field at that moment (at the yes/no
  prompt: a press of the key \<open>s\<close>, the empty string being return alone), \<open>Abort\<close> is
  Ctrl-C or Escape. The library keeps a rejected text in the field, so after a rejected
  submission \<open>s\<close> is that text as the operator has edited it since, not only what was
  typed since. A text prompt takes its initial value when the field is empty, runs the
  validator on the value, and stays open when the validator answers with a message. When
  the events run out the prompt is still waiting.
\<close>

datatype event = Submit string | Abort

datatype 'a prompted = Answered 'a | Aborted | Pending

datatype validation = Valid | Invalid string

fun text_prompt ::
  "string \<Rightarrow> (string \<Rightarrow> trace \<Rightarrow> validation \<times> trace) \<Rightarrow> event list \<Rightarrow> trace
    \<Rightarrow> string prompted \<times> event list \<times> trace" where
  "text_prompt initial validate [] t = (Pending, [], t)"
| "text_prompt initial validate (Abort # evs) t = (Aborted, evs, t)"
| "text_prompt initial validate (Submit s # evs) t =
     (let v = (if s = [] then initial else s)
      in case validate v t of
           (Valid, t') \<Rightarrow> (Answered v, evs, t')
         | (Invalid msg, t') \<Rightarrow>
             text_prompt initial validate evs (t'\<lparr>console := console t' @ [ValidationMessage msg]\<rparr>))"

fun confirm_prompt ::
  "bool \<Rightarrow> event list \<Rightarrow> trace \<Rightarrow> bool prompted \<times> event list \<times> trace" where
  "confirm_prompt initial [] t = (Pending, [], t)"
| "confirm_prompt initial (Abort # evs) t = (Aborted, evs, t)"
| "confirm_prompt initial (Submit s # evs) t =
     (if s = ''y'' \<or> s = ''Y'' then (Answered True, evs, t)
      else if s = ''n'' \<or> s = ''N'' then (Answered False, evs, t)
      else if s = [] then (Answered initial, evs, t)
      else confirm_prompt initial evs t)"

section \<open>The script\<close>

subsection \<open>Probes\<close>

definition versionExists :: "env \<Rightarrow> string \<Rightarrow> string \<Rightarrow> trace \<Rightarrow> bool \<times> trace" where
  "versionExists e pkg version t =
     (case execSync e (''npm view '' @ pkg @ ''@'' @ version @ '' version'') None t of
        (Inr _, t') \<Rightarrow> (True, t')
      | (Inl _, t') \<Rightarrow> (False, t'))"

definition has :: "env \<Rightarrow> string \<Rightarrow> trace \<Rightarrow> bool \<times> trace" where
  "has e cmd t =
     (case execSync e (cmd @ '' --version'') None t of
        (Inr _, t') \<Rightarrow> (True, t')
      | (Inl _, t') \<Rightarrow> (False, t'))"

definition detectPackageManager :: "env \<Rightarrow> trace \<Rightarrow> string \<times> trace" where
  "detectPackageManager e t =
     (case has e ''pnpm'' t of
        (True, t1) \<Rightarrow> (''pnpm'', t1)
      | (False, t1) \<Rightarrow>
          (case has e ''yarn'' t1 of
             (True, t2) \<Rightarrow> (''yarn'', t2)
           | (False, t2) \<Rightarrow>
               (case has e ''bun'' t2 of
                  (True, t3) \<Rightarrow> (''bun'', t3)
                | (False, t3) \<Rightarrow> (''npm'', t3))))"

subsection \<open>The three questions\<close>

record response =
  projectName :: string
  typescriptVersion :: string
  useEslint :: bool

definition validate_projectName :: "string \<Rightarrow> trace \<Rightarrow> validation \<times> trace" where
  "validate_projectName name t =
     (if name \<noteq> [] then (Valid, t) else (Invalid ''Project name is required'', t))"

definition validate_typescriptVersion :: "env \<Rightarrow> string \<Rightarrow> trace \<Rightarrow> validation \<times> trace" where
  "validate_typescriptVersion e v t =
     (case versionExists e ''typescript'' v t of
        (isValid, t') \<Rightarrow> (if isValid then (Valid, t') else (Invalid ''Invalid TypeScript version'', t')))"

definition prompts :: "env \<Rightarrow> event list \<Rightarrow> trace \<Rightarrow> response prompted \<times> trace" where
  "prompts e evs t =
     (case text_prompt [] validate_projectName evs t of
        (Aborted, _, t1) \<Rightarrow> (Aborted, t1)
      | (Pending, _, t1) \<Rightarrow> (Pending, t1)
      | (Answered name, evs1, t1) \<Rightarrow>
          (case text_prompt ''5.2.2'' (validate_typescriptVersion e) evs1 t1 of
             (Aborted, _, t2) \<Rightarrow> (Aborted, t2)
           | (Pending, _, t2) \<Rightarrow> (Pending, t2)
           | (Answered v, evs2, t2) \<Rightarrow>
               (case confirm_prompt True evs2 t2 of
                  (Aborted, _, t3) \<Rightarrow> (Aborted, t3)
                | (Pending, _, t3) \<Rightarrow> (Pending, t3)
                | (Answered b, _, t3) \<Rightarrow>
                    (Answered \<lparr>projectName = name, typescriptVersion = v, useEslint = b\<rparr>, t3))))"

subsection \<open>The manifest\<close>

definition scripts :: "response \<Rightarrow> (string \<times> string) list" where
  \<open>scripts r =
     [(''build'', ''tsc''),
      (''dev'', ''ts-node-dev --respawn --transpile-only index.ts'')]
     @ (if useEslint r then [(''lint'', ''eslint . --ext .ts'')] else [])
     @ [(''test'', ''echo "Error: no test specified" && exit 1'')]\<close>

definition devDependencies :: "response \<Rightarrow> (string \<times> string) list" where
  "devDependencies r =
     [(''@types/express'', ''^5.0.3''),
      (''@types/node'', ''^22.15.3''),
      (''ts-node'', ''^10.9.2''),
      (''ts-node-dev'', ''^2.0.0''),
      (''typescript'', typescriptVersion r)]
     @ (if useEslint r then
          [(''eslint'', ''^9.29.0''),
           (''@typescript-eslint/parser'', ''^8.34.1''),
           (''@typescript-eslint/eslint-plugin'', ''^8.34.1'')]
        else [])"

definition string_object :: "(string \<times> string) list \<Rightarrow> json" where
  "string_object kvs = JObject (map (\<lambda>(k, v). (k, JString v)) kvs)"

definition package_json :: "response \<Rightarrow> json" where
  "package_json r =
     JObject
       [(''name'', JString (projectName r)),
        (''description'', JString []),
        (''version'', JString ''0.1.0''),
        (''main'', JString ''index.js''),
        (''scripts'', string_object (scripts r)),
        (''keywords'', JArray []),
        (''author'', JString []),
        (''license'', JString ''MIT''),
        (''dependencies'', string_object
           [(''@domusjs/core'', ''^0.1.0''),
            (''@domusjs/infrastructure'', ''^0.1.0''),
            (''express'', ''^5.1.0''),
            (''reflect-metadata'', ''^0.2.2''),
            (''tsyringe'', ''^4.9.1'')]),
        (''devDependencies'', string_object (devDependencies r))]"

definition tsconfig_json :: json where
  "tsconfig_json =
     JObject
       [(''compilerOptions'', JObject
           [(''target'', JString ''es2016''),
            (''lib'', JArray [JString ''es2022'']),
            (''experimentalDecorators'', JBool True),
            (''emitDecoratorMetadata'', JBool True),
            (''module'', JString ''commonjs''),
            (''resolveJsonModule'', JBool True),
            (''outDir'', JString ''dist''),
            (''esModuleInterop'', JBool True),
            (''forceConsistentCasingInFileNames'', JBool True),
            (''strict'', JBool True),
            (''skipLibCheck'', JBool True)])]"

subsection \<open>The fixed texts\<close>

text \<open>
  A template literal opens with a line break and every line of it ends with one.
  The lint configuration is passed through \<^verbatim>\<open>trim\<close>, which removes the white space at
  both ends (the texts are ASCII, so the ASCII white space is all there is).
\<close>

definition template :: "string list \<Rightarrow> string" where
  "template ls = CHR 0x0A # concat (map (\<lambda>l. l @ [CHR 0x0A]) ls)"

definition is_space :: "char \<Rightarrow> bool" where
  "is_space c = (c = CHR '' '' \<or> c = CHR 0x09 \<or> c = CHR 0x0A \<or> c = CHR 0x0B
     \<or> c = CHR 0x0C \<or> c = CHR 0x0D)"

definition trim :: "string \<Rightarrow> string" where
  "trim s = rev (dropWhile is_space (rev (dropWhile is_space s)))"

definition eslint_config_mjs :: string where
  \<open>eslint_config_mjs = trim (template [
     ''  import eslintPluginTs from \'@typescript-eslint/eslint-plugin\';'',
     ''  import parserTs from \'@typescript-eslint/parser\';'',
     ''  '',
     ''  export default ['',
     ''    {'',
     ''      files: [\'**/*.ts\'],'',
     ''      ignores: [\'dist/**\', \'node_modules/**\'],'',
     ''      languageOptions: {'',
     ''        parser: parserTs,'',
     ''        parserOptions: {'',
     ''          project: \'./tsconfig.json\','',
     (''          sourceType: \'module'' @ [CHR 0x27]),
     ''        }'',
     ''      },'',
     ''      plugins: {'',
     ''        \'@typescript-eslint\': eslintPluginTs'',
     ''      },'',
     ''      rules: {'',
     ''        semi: [\'error\', \'always\'],'',
     ''        quotes: [\'error\', \'single\'],'',
     (''        \'@typescript-eslint/explicit-module-boundary-types\': \'off'' @ [CHR 0x27]),
     ''      }'',
     ''    }'',
     ''  ];''] @ ''  '')\<close>

definition index_ts :: string where
  \<open>index_ts = template [
     ''import \'reflect-metadata\';'',
     '''',
     ''import { container } from \'tsyringe\';'',
     ''import { Logger } from \'@domusjs/core\';'',
     ''import { registerDomusCore, PinoLogger } from \'@domusjs/infrastructure\';'',
     '''',
     ''import { createServer } from \'./server\';'',
     '''',
     ''async function registerDependencies() {'',
     ''    registerDomusCore({'',
     ''    logger: new PinoLogger()'',
     ''    });'',
     ''}'',
     '''',
     ''async function bootstrap() {'',
     ''    await registerDependencies(); // Register all dependencies before starting the server'',
     '''',
     ''    const logger = container.resolve<Logger>(\'Logger\');'',
     '''',
     ''    try {'',
     ''    const app = createServer();'',
     ''    const port = process.env.PORT || 3000;'',
     '''',
     ''    app.listen(port, () => {'',
     ''        logger.info(`Server running on port ${port}`);'',
     ''    });'',
     '''',
     ''    process.on(\'SIGINT\', async () => {'',
     ''        logger.info(\'Shutting down...\');'',
     ''        process.exit(0);'',
     ''    });'',
     '''',
     ''    } catch (err) {'',
     ''    logger.error(\'Error in bootstrap\', err);'',
     ''    }'',
     ''}'',
     '''',
     ''bootstrap();'']\<close>

definition server_ts :: string where
  \<open>server_ts = template [
     ''import express from \'express\';'',
     ''import routes from \'./routes\';'',
     ''import { errorHandler } from \'@domusjs/infrastructure\';'',
     '''',
     ''export function createServer() {'',
     '''',
     ''    const app = express();'',
     '''',
     ''    app.use(express.json());'',
     ''    app.use(routes);'',
     ''    app.use(errorHandler);'',
     '''',
     ''    return app;'',
     ''}'']\<close>

definition routes_ts :: string where
  \<open>routes_ts = template [
     ''import { Router } from \'express\';'',
     '''',
     ''const router = Router();'',
     '''',
     ''router.get(\'/\', (req, res) => {'',
     ''  res.send(\'Hello World\');'',
     ''});'',
     '''',
     ''export default router;'']\<close>

subsection \<open>From the answers to the installed project\<close>

definition write_artifact :: "env \<Rightarrow> string \<Rightarrow> string \<Rightarrow> string \<Rightarrow> unit action" where
  "write_artifact e projectDir file content =
     writeFileSync e (join [projectDir, file]) content"

text \<open>
  Everything after the prompts, in the order of the script. The first statement that
  throws ends it.
\<close>

definition scaffold :: "env \<Rightarrow> response \<Rightarrow> unit action" where
  "scaffold e r =
     (let projectDir = resolve (process_cwd e) [process_cwd e, projectName r] in
      and_then (mkdirSync e projectDir) (\<lambda>_.
      and_then (\<lambda>t. case detectPackageManager e t of (pm, t') \<Rightarrow> (Inr pm, t')) (\<lambda>packageManager.
      and_then (write_artifact e projectDir ''package.json'' (stringify 0 (package_json r))) (\<lambda>_.
      and_then (write_artifact e projectDir ''tsconfig.json'' (stringify 0 tsconfig_json)) (\<lambda>_.
      and_then (if useEslint r
                then write_artifact e projectDir ''eslint.config.mjs'' eslint_config_mjs
                else (\<lambda>t. (Inr (), t))) (\<lambda>_.
      and_then (write_artifact e projectDir ''index.ts'' index_ts) (\<lambda>_.
      and_then (write_artifact e projectDir ''server.ts'' server_ts) (\<lambda>_.
      and_then (write_artifact e projectDir ''routes.ts'' routes_ts) (\<lambda>_.
      and_then (console_log (ProjectCreated (projectName r))) (\<lambda>_.
      and_then (console_log (InstallingWith packageManager)) (\<lambda>_.
      and_then (execSync e (packageManager @ '' install'') (Some projectDir)) (\<lambda>_.
      and_then (console_log NextSteps) (\<lambda>_.
      and_then (console_log (CdInto (projectName r))) (\<lambda>_.
      console_log (RunDev packageManager)))))))))))))))"

text \<open>
  The whole run. \<^verbatim>\<open>onCancel\<close> prints its message and calls \<^verbatim>\<open>process.exit(1)\<close>. An
  error nobody catches ends a Node process with exit code 1; a script that runs to its
  last statement ends it with 0.
\<close>

datatype outcome = Exit nat | Uncaught error | Waiting

definition exit_code :: "outcome \<Rightarrow> nat option" where
  "exit_code out = (case out of Exit n \<Rightarrow> Some n | Uncaught _ \<Rightarrow> Some 1 | Waiting \<Rightarrow> None)"

definition main :: "env \<Rightarrow> event list \<Rightarrow> outcome \<times> trace" where
  "main e evs =
     (case prompts e evs (snd (console_log Banner empty_trace)) of
        (Aborted, t) \<Rightarrow> (Exit 1, snd (console_log OperationCancelled t))
      | (Pending, t) \<Rightarrow> (Waiting, t)
      | (Answered r, t) \<Rightarrow>
          (case scaffold e r t of
             (Inl err, t') \<Rightarrow> (Uncaught err, t')
           | (Inr _, t') \<Rightarrow> (Exit 0, t')))"

section \<open>Notions used in the statements\<close>

text \<open>The subprocess calls of the two probes, as \<^verbatim>\<open>execSync\<close> receives them.\<close>

definition registry_query :: "string \<Rightarrow> string \<Rightarrow> exec_call" where
  "registry_query pkg version =
     \<lparr>command = ''npm view '' @ pkg @ ''@'' @ version @ '' version'', exec_cwd = None\<rparr>"

definition probe :: "string \<Rightarrow> exec_call" where
  "probe cmd = \<lparr>command = cmd @ '' --version'', exec_cwd = None\<rparr>"

text \<open>
  The prioritized candidates. Candidate \<open>i\<close> can only be probed after the candidates
  before it, so its probe has one possible history: \<open>probe_succeeds e l i\<close> is the
  outcome of that probe when the detector starts with the subprocess history \<open>l\<close>.
\<close>

definition candidates :: "string list" where
  "candidates = [''pnpm'', ''yarn'', ''bun'']"

definition probe_succeeds :: "env \<Rightarrow> exec_call list \<Rightarrow> nat \<Rightarrow> bool" where
  "probe_succeeds e l i =
     (exec_oracle e (l @ map probe (take i candidates)) (probe (candidates ! i)) = Exited 0)"

definition detected :: "env \<Rightarrow> exec_call list \<Rightarrow> string" where
  "detected e l =
     (case find (probe_succeeds e l) [0, 1, 2] of
        Some i \<Rightarrow> candidates ! i
      | None \<Rightarrow> ''npm'')"

definition probes_run :: "env \<Rightarrow> exec_call list \<Rightarrow> exec_call list" where
  "probes_run e l =
     map probe
       (take (case find (probe_succeeds e l) [0, 1, 2] of Some i \<Rightarrow> Suc i | None \<Rightarrow> 3)
          candidates)"

text \<open>
  The directory of the new project, and the spec's ManifestBuilder: the sequence of
  artifacts (relative path, content) as a function of the three answers alone, and the
  file operations that create the directory and write them. The lemmas
  \<open>scaffold_fs_log\<close> and \<open>scaffold_eq\<close> below show that these are the file operations
  of the script, in this order.
\<close>

definition project_dir :: "env \<Rightarrow> response \<Rightarrow> string" where
  "project_dir e r = resolve (process_cwd e) [process_cwd e, projectName r]"

definition artifacts :: "response \<Rightarrow> (string \<times> string) list" where
  "artifacts r =
     [(''package.json'', stringify 0 (package_json r)),
      (''tsconfig.json'', stringify 0 tsconfig_json)]
     @ (if useEslint r then [(''eslint.config.mjs'', eslint_config_mjs)] else [])
     @ [(''index.ts'', index_ts), (''server.ts'', server_ts), (''routes.ts'', routes_ts)]"

definition emitted :: "env \<Rightarrow> response \<Rightarrow> fs_op list" where
  "emitted e r =
     MkdirRecursive (project_dir e r)
       # map (\<lambda>(file, content). WriteFile (join [project_dir e r, file]) content) (artifacts r)"

text \<open>
  \<open>fs_accepts e l ops\<close>: the file system, after the operations \<open>l\<close>, lets the
  operations \<open>ops\<close> through one after the other. \<open>run_ops\<close> performs a list of
  operations as the script does, stopping at the first one that fails.
\<close>

fun fs_accepts :: "env \<Rightarrow> fs_op list \<Rightarrow> fs_op list \<Rightarrow> bool" where
  "fs_accepts e l [] = True"
| "fs_accepts e l (op # ops) = (fs_oracle e l op \<and> fs_accepts e (l @ [op]) ops)"

fun run_ops :: "env \<Rightarrow> fs_op list \<Rightarrow> trace \<Rightarrow> error option \<times> trace" where
  "run_ops e [] t = (None, t)"
| "run_ops e (op # ops) t =
     (if fs_oracle e (fs_log t) op then run_ops e ops (t\<lparr>fs_log := fs_log t @ [op]\<rparr>)
      else (Some (FsError op), t))"

text \<open>The files written by a list of file operations (path and content), and the file
  operations of a run that were not yet in the trace it started from.\<close>

definition written :: "fs_op list \<Rightarrow> (string \<times> string) list" where
  "written ops =
     concat (map (\<lambda>op. case op of WriteFile path content \<Rightarrow> [(path, content)]
                              | MkdirRecursive _ \<Rightarrow> []) ops)"

definition new_ops :: "trace \<Rightarrow> trace \<Rightarrow> fs_op list" where
  "new_ops t t' = drop (length (fs_log t)) (fs_log t')"

text \<open>
  The install subprocess, and how it ends, for a script that reaches it from the trace
  \<open>t\<close> left by the prompts: the probes of the detector come in between.
\<close>

definition install_call :: "env \<Rightarrow> response \<Rightarrow> trace \<Rightarrow> exec_call" where
  "install_call e r t =
     \<lparr>command = detected e (exec_log t) @ '' install'', exec_cwd = Some (project_dir e r)\<rparr>"

definition install_outcome :: "env \<Rightarrow> response \<Rightarrow> trace \<Rightarrow> exec_outcome" where
  "install_outcome e r t =
     exec_oracle e (exec_log t @ probes_run e (exec_log t)) (install_call e r t)"


text \<open>The value of a key of a JSON object.\<close>

definition member :: "json \<Rightarrow> string \<Rightarrow> json option" where
  "member j k = (case j of JObject kvs \<Rightarrow> map_of kvs k | _ \<Rightarrow> None)"


subsection \<open>Sample runs\<close>

text \<open>
  The scenario of the spec: the operator names the project \<^verbatim>\<open>my-app\<close>, asks for
  TypeScript 5.2.2 and accepts ESLint. The same answers with ESLint declined.
\<close>

definition my_app_events :: "event list" where
  "my_app_events = [Submit ''my-app'', Submit ''5.2.2'', Submit ''y'']"

definition my_app :: response where
  "my_app = \<lparr>projectName = ''my-app'', typescriptVersion = ''5.2.2'', useEslint = True\<rparr>"


text \<open>
  Four hosts, all with a file system that accepts every operation. On the first every
  subprocess succeeds but the pnpm probe; on the second the registry answers for
  TypeScript 5.2.2 and every other subprocess, the install among them, exits with
  status 1; on the third no subprocess can run at all; on the fourth the registry
  answers for TypeScript 4.9.5 only and every other subprocess exits with status 1.
\<close>

definition host_with_yarn :: env where
  "host_with_yarn =
     \<lparr>process_cwd = ''/home/user'',
      exec_oracle = (\<lambda>l c. if command c = ''pnpm --version'' then Exited 127 else Exited 0),
      fs_oracle = (\<lambda>l op. True)\<rparr>"

definition host_install_fails :: env where
  "host_install_fails =
     \<lparr>process_cwd = ''/home/user'',
      exec_oracle = (\<lambda>l c. if command c = ''npm view typescript@5.2.2 version'' then Exited 0
                            else Exited 1),
      fs_oracle = (\<lambda>l op. True)\<rparr>"

definition host_strict_registry :: env where
  "host_strict_registry =
     \<lparr>process_cwd = ''/home/user'',
      exec_oracle = (\<lambda>l c. if command c = ''npm view typescript@4.9.5 version'' then Exited 0
                            else Exited 1),
      fs_oracle = (\<lambda>l op. True)\<rparr>"

definition host_without_network :: env where
  "host_without_network =
     \<lparr>process_cwd = ''/srv/build'',
      exec_oracle = (\<lambda>l c. Signalled),
      fs_oracle = (\<lambda>l op. True)\<rparr>"

text \<open>A trace that is not empty: a run that starts after other things happened.\<close>

definition used_trace :: trace where
  "used_trace =
     \<lparr>exec_log = [registry_query ''typescript'' ''5.2.2''],
      fs_log = [WriteFile ''/tmp/notes.txt'' ''x''],
      console = [Banner]\<rparr>"

section \<open>Lemmas on the probes\<close>

lemma execSync_eq:
  "execSync e cmd dir t =
     (if exec_oracle e (exec_log t) \<lparr>command = cmd, exec_cwd = dir\<rparr> = Exited 0 then Inr ()
      else Inl (ExecError \<lparr>command = cmd, exec_cwd = dir\<rparr>
             (exec_oracle e (exec_log t) \<lparr>command = cmd, exec_cwd = dir\<rparr>)),
      t\<lparr>exec_log := exec_log t @ [\<lparr>command = cmd, exec_cwd = dir\<rparr>]\<rparr>)"
  by (simp add: execSync_def Let_def)

lemma has_eq:
  "has e cmd t =
     (exec_oracle e (exec_log t) (probe cmd) = Exited 0,
      t\<lparr>exec_log := exec_log t @ [probe cmd]\<rparr>)"
  by (simp add: has_def execSync_eq probe_def)

lemma versionExists_eq:
  "versionExists e pkg v t =
     (exec_oracle e (exec_log t) (registry_query pkg v) = Exited 0,
      t\<lparr>exec_log := exec_log t @ [registry_query pkg v]\<rparr>)"
  by (simp add: versionExists_def execSync_eq registry_query_def)

lemma detectPackageManager_eq:
  "detectPackageManager e t =
     (detected e (exec_log t), t\<lparr>exec_log := exec_log t @ probes_run e (exec_log t)\<rparr>)"
  by (simp add: detectPackageManager_def has_eq detected_def probes_run_def probe_succeeds_def
      candidates_def)

section \<open>Lemmas on paths\<close>



















section \<open>Lemmas on the prompts\<close>

lemma projectName_rejects_one:
  "text_prompt [] validate_projectName (Submit [] # evs) t =
     text_prompt [] validate_projectName evs
       (t\<lparr>console := console t @ [ValidationMessage ''Project name is required'']\<rparr>)"
  by (simp add: validate_projectName_def)

lemma projectName_rejects_empty:
  "text_prompt [] validate_projectName (replicate k (Submit []) @ evs) t =
     text_prompt [] validate_projectName evs
       (t\<lparr>console := console t
            @ replicate k (ValidationMessage ''Project name is required'')\<rparr>)"
proof (induction k arbitrary: t)
  case 0
  show ?case by simp
next
  case (Suc k)
  have "text_prompt [] validate_projectName (replicate (Suc k) (Submit []) @ evs) t =
      text_prompt [] validate_projectName (replicate k (Submit []) @ evs)
        (t\<lparr>console := console t @ [ValidationMessage ''Project name is required'']\<rparr>)"
    by (simp only: replicate_Suc append_Cons projectName_rejects_one)
  then show ?case
    by (simp add: Suc)
qed

text \<open>
  What the prompts leave behind. No prompt touches the files. The version prompt answers
  only with a version whose registry query was the last subprocess run and succeeded.
  The name prompt answers with the first submission that is not empty, and the version
  prompt with the first submission, or the default in its place, when the registry knows
  it.
\<close>

lemma projectName_prompt_result:
  "text_prompt [] validate_projectName evs t = (res, evs', t') \<Longrightarrow>
     fs_log t' = fs_log t \<and> exec_log t' = exec_log t"
proof (induction "[] :: string" validate_projectName evs t rule: text_prompt.induct)
  case (1 t)
  then show ?case by simp
next
  case (2 evs t)
  then show ?case by simp
next
  case (3 s evs t)
  show ?case
  proof (cases "s = []")
    case True
    with 3 show ?thesis
      by (simp add: validate_projectName_def)
  next
    case False
    with "3.prems" show ?thesis
      by (simp add: validate_projectName_def)
  qed
qed

lemma version_prompt_result:
  "text_prompt init (validate_typescriptVersion e) evs t = (res, evs', t') \<Longrightarrow>
     fs_log t' = fs_log t
     \<and> (\<forall>v. res = Answered v \<longrightarrow>
           exec_log t' \<noteq> []
           \<and> last (exec_log t') = registry_query ''typescript'' v
           \<and> exec_oracle e (butlast (exec_log t')) (last (exec_log t')) = Exited 0)"
proof (induction init "validate_typescriptVersion e" evs t rule: text_prompt.induct)
  case (1 init t)
  then show ?case by simp
next
  case (2 init evs t)
  then show ?case by simp
next
  case (3 init s evs t)
  let ?v = "if s = [] then init else s"
  show ?case
  proof (cases "exec_oracle e (exec_log t) (registry_query ''typescript'' ?v) = Exited 0")
    case True
    with "3.prems" show ?thesis
      by (auto simp: validate_typescriptVersion_def versionExists_eq Let_def split: if_splits)
  next
    case False
    have v: "validate_typescriptVersion e ?v t =
        (Invalid ''Invalid TypeScript version'',
         t\<lparr>exec_log := exec_log t @ [registry_query ''typescript'' ?v]\<rparr>)"
      using False by (simp add: validate_typescriptVersion_def versionExists_eq)
    let ?y = "t\<lparr>exec_log := exec_log t @ [registry_query ''typescript'' ?v]\<rparr>"
    let ?t = "?y\<lparr>console := console ?y @ [ValidationMessage ''Invalid TypeScript version'']\<rparr>"
    from "3.prems" v
    have step: "text_prompt init (validate_typescriptVersion e) evs ?t = (res, evs', t')"
      by (simp add: Let_def)
    have ih: "fs_log t' = fs_log ?t
     \<and> (\<forall>v. res = Answered v \<longrightarrow>
           exec_log t' \<noteq> []
           \<and> last (exec_log t') = registry_query ''typescript'' v
           \<and> exec_oracle e (butlast (exec_log t')) (last (exec_log t')) = Exited 0)"
      by (rule "3.hyps" [OF refl v [symmetric] refl step])
    from ih have "fs_log t' = fs_log t"
      by simp
    with ih show ?thesis
      by blast
  qed
qed

lemma confirm_prompt_result:
  "confirm_prompt init evs t = (res, evs', t') \<Longrightarrow> t' = t"
  by (induction init evs t rule: confirm_prompt.induct) (auto split: if_splits)


lemma prompts_answered:
  assumes "prompts e evs t = (Answered r, t')"
  shows "fs_log t' = fs_log t
     \<and> exec_log t' \<noteq> []
     \<and> last (exec_log t') = registry_query ''typescript'' (typescriptVersion r)
     \<and> exec_oracle e (butlast (exec_log t')) (last (exec_log t')) = Exited 0"
proof -
  obtain res1 evs1 t1 where p1: "text_prompt [] validate_projectName evs t = (res1, evs1, t1)"
    by (cases "text_prompt [] validate_projectName evs t") auto
  from assms p1 obtain name where r1: "res1 = Answered name"
    by (cases res1) (auto simp: prompts_def)
  obtain res2 evs2 t2 where
    p2: "text_prompt ''5.2.2'' (validate_typescriptVersion e) evs1 t1 = (res2, evs2, t2)"
    by (cases "text_prompt ''5.2.2'' (validate_typescriptVersion e) evs1 t1") auto
  from assms p1 r1 p2 obtain v where r2: "res2 = Answered v"
    by (cases res2) (auto simp: prompts_def)
  obtain res3 evs3 t3 where p3: "confirm_prompt True evs2 t2 = (res3, evs3, t3)"
    by (cases "confirm_prompt True evs2 t2") auto
  from assms p1 r1 p2 r2 p3 obtain b where r3: "res3 = Answered b"
    by (cases res3) (auto simp: prompts_def)
  from assms p1 r1 p2 r2 p3 r3
  have r: "r = \<lparr>projectName = name, typescriptVersion = v, useEslint = b\<rparr>" and t': "t' = t3"
    by (auto simp: prompts_def)
  from p3 have t3: "t3 = t2"
    by (rule confirm_prompt_result)
  from projectName_prompt_result [OF p1] have f1: "fs_log t1 = fs_log t"
    by simp
  from version_prompt_result [OF p2] r2 have f2: "fs_log t2 = fs_log t1"
    and x: "exec_log t2 \<noteq> []" "last (exec_log t2) = registry_query ''typescript'' v"
      "exec_oracle e (butlast (exec_log t2)) (last (exec_log t2)) = Exited 0"
    by auto
  from f1 f2 x show ?thesis
    by (simp add: t' t3 r)
qed

lemma prompts_name:
  assumes "name \<noteq> []"
      and "prompts e (replicate k (Submit []) @ Submit name # evs) t = (Answered r, t')"
  shows "projectName r = name"
  using assms
  by (auto simp: prompts_def projectName_rejects_empty validate_projectName_def
      split: prod.splits prompted.splits)

lemma prompts_version:
  assumes "name \<noteq> []"
      and "exec_oracle e (exec_log t)
        (registry_query ''typescript'' (if s = [] then ''5.2.2'' else s)) = Exited 0"
      and "prompts e (Submit name # Submit s # evs) t = (Answered r, t')"
  shows "typescriptVersion r = (if s = [] then ''5.2.2'' else s)"
  using assms
  by (auto simp: prompts_def validate_projectName_def validate_typescriptVersion_def
      versionExists_eq Let_def split: prod.splits prompted.splits if_splits)

section \<open>Lemmas on the manifest text\<close>

lemma stringify_first_member:
  "stringify depth (JObject ((k, v) # (k', v') # kvs)) =
     ''{'' @ [CHR 0x0A] @ indentation (Suc depth) @ quote k @ '': '' @ stringify (Suc depth) v
       @ '','' @ [CHR 0x0A] @ indentation (Suc depth)
       @ intercalate ('','' @ [CHR 0x0A] @ indentation (Suc depth))
           (map (\<lambda>(k, v). quote k @ '': '' @ stringify (Suc depth) v) ((k', v') # kvs))
       @ [CHR 0x0A] @ indentation depth @ ''}''"
  by simp

lemma manifest_starts_with_name:
  "\<exists>rest. stringify 0 (package_json r) =
     ''{'' @ [CHR 0x0A] @ ''  '' @ quote ''name'' @ '': '' @ quote (projectName r) @ '','' @ rest"
proof -
  have i: "indentation (Suc 0) = ''  ''"
    by (simp add: indentation_def numeral_2_eq_2)
  show ?thesis
    unfolding package_json_def stringify_first_member i stringify.simps(1)
    by (intro exI) (rule refl)
qed


lemma devDependencies_text:
  "\<exists>rest. stringify (Suc 0) (string_object (devDependencies r)) =
     ''{'' @ [CHR 0x0A]
     @ ''    '' @ quote ''@types/express'' @ '': '' @ quote ''^5.0.3'' @ '','' @ [CHR 0x0A]
     @ ''    '' @ quote ''@types/node'' @ '': '' @ quote ''^22.15.3'' @ '','' @ [CHR 0x0A]
     @ ''    '' @ quote ''ts-node'' @ '': '' @ quote ''^10.9.2'' @ '','' @ [CHR 0x0A]
     @ ''    '' @ quote ''ts-node-dev'' @ '': '' @ quote ''^2.0.0'' @ '','' @ [CHR 0x0A]
     @ ''    '' @ quote ''typescript'' @ '': '' @ quote (typescriptVersion r) @ rest"
proof -
  have i: "indentation (Suc (Suc 0)) = ''    ''"
    by (simp add: indentation_def eval_nat_numeral)
  show ?thesis
    by (cases "useEslint r") (simp_all add: devDependencies_def string_object_def i)
qed

section \<open>Lemmas on the script\<close>

lemma fs_accepts_all: "(\<And>l op. fs_oracle e l op) \<Longrightarrow> fs_accepts e l ops"
  by (induction ops arbitrary: l) auto

lemma run_ops_prefix: "\<exists>n. fs_log (snd (run_ops e ops t)) = fs_log t @ take n ops"
proof (induction ops arbitrary: t)
  case Nil
  show ?case by simp
next
  case (Cons op ops)
  show ?case
  proof (cases "fs_oracle e (fs_log t) op")
    case True
    from Cons [of "t\<lparr>fs_log := fs_log t @ [op]\<rparr>"]
    obtain n where "fs_log (snd (run_ops e ops (t\<lparr>fs_log := fs_log t @ [op]\<rparr>))) =
        (fs_log t @ [op]) @ take n ops"
      by auto
    with True have "fs_log (snd (run_ops e (op # ops) t)) = fs_log t @ take (Suc n) (op # ops)"
      by simp
    then show ?thesis ..
  next
    case False
    then have "fs_log (snd (run_ops e (op # ops) t)) = fs_log t @ take 0 (op # ops)"
      by simp
    then show ?thesis ..
  qed
qed

lemma run_ops_first:
  assumes "fs_oracle e (fs_log t) op"
  shows "\<exists>n. fs_log (snd (run_ops e (op # ops) t)) = fs_log t @ op # take n ops"
proof -
  from run_ops_prefix [of e ops "t\<lparr>fs_log := fs_log t @ [op]\<rparr>"]
  obtain n where "fs_log (snd (run_ops e ops (t\<lparr>fs_log := fs_log t @ [op]\<rparr>))) =
      (fs_log t @ [op]) @ take n ops"
    by auto
  with assms have "fs_log (snd (run_ops e (op # ops) t)) = fs_log t @ op # take n ops"
    by simp
  then show ?thesis ..
qed

lemma run_ops_all_iff:
  "(fs_log (snd (run_ops e ops t)) = fs_log t @ ops) = fs_accepts e (fs_log t) ops"
proof (induction ops arbitrary: t)
  case Nil
  show ?case by simp
next
  case (Cons op ops)
  show ?case
  proof (cases "fs_oracle e (fs_log t) op")
    case True
    with Cons [of "t\<lparr>fs_log := fs_log t @ [op]\<rparr>"] show ?thesis
      by simp
  next
    case False
    then show ?thesis by simp
  qed
qed

text \<open>
  Whatever the file system does, the file operations of the script are those of
  \<open>emitted\<close>, in order, up to the first that fails.
\<close>

lemma scaffold_fs_log:
  "fs_log (snd (scaffold e r t)) = fs_log (snd (run_ops e (emitted e r) t))"
  by (cases "useEslint r")
    (simp_all add: scaffold_def and_then_def write_artifact_def writeFileSync_def mkdirSync_def
      console_log_def detectPackageManager_eq execSync_eq Let_def emitted_def artifacts_def
      project_dir_def)

lemma scaffold_prefix: "\<exists>n. new_ops t (snd (scaffold e r t)) = take n (emitted e r)"
proof -
  from run_ops_prefix [of e "emitted e r" t]
  obtain n where "fs_log (snd (run_ops e (emitted e r) t)) = fs_log t @ take n (emitted e r)" ..
  then have "new_ops t (snd (scaffold e r t)) = take n (emitted e r)"
    by (simp add: new_ops_def scaffold_fs_log)
  then show ?thesis ..
qed

lemma scaffold_first_op:
  assumes "fs_oracle e (fs_log t) (MkdirRecursive (project_dir e r))"
  shows "hd (new_ops t (snd (scaffold e r t))) = MkdirRecursive (project_dir e r)"
proof -
  let ?rest = "map (\<lambda>(file, content). WriteFile (join [project_dir e r, file]) content)
    (artifacts r)"
  from run_ops_first [OF assms, of ?rest]
  obtain n where "fs_log (snd (run_ops e (MkdirRecursive (project_dir e r) # ?rest) t)) =
      fs_log t @ MkdirRecursive (project_dir e r) # take n ?rest" ..
  then have "new_ops t (snd (scaffold e r t)) = MkdirRecursive (project_dir e r) # take n ?rest"
    by (simp add: new_ops_def scaffold_fs_log emitted_def)
  then show ?thesis
    by simp
qed

text \<open>The runs in which everything is written are those whose operations the file
  system accepts.\<close>

lemma all_written_iff:
  "(new_ops t (snd (scaffold e r t)) = emitted e r) = fs_accepts e (fs_log t) (emitted e r)"
proof -
  obtain n where n: "fs_log (snd (scaffold e r t)) = fs_log t @ take n (emitted e r)"
    using run_ops_prefix [of e "emitted e r" t] by (auto simp: scaffold_fs_log)
  have "(new_ops t (snd (scaffold e r t)) = emitted e r) =
      (fs_log (snd (scaffold e r t)) = fs_log t @ emitted e r)"
    by (simp add: new_ops_def n)
  then show ?thesis
    by (simp add: scaffold_fs_log run_ops_all_iff)
qed

text \<open>
  When the file system accepts the operations, the script reaches the install
  subprocess, having created the directory and written the artifacts; what happens then
  depends on how the install ends.
\<close>

lemma scaffold_eq:
  assumes fs: "fs_accepts e (fs_log t) (emitted e r)"
  shows "scaffold e r t =
     (if install_outcome e r t = Exited 0 then Inr ()
      else Inl (ExecError (install_call e r t) (install_outcome e r t)),
      \<lparr>exec_log = exec_log t @ probes_run e (exec_log t) @ [install_call e r t],
       fs_log = fs_log t @ emitted e r,
       console = console t
         @ [ProjectCreated (projectName r), InstallingWith (detected e (exec_log t))]
         @ (if install_outcome e r t = Exited 0
            then [NextSteps, CdInto (projectName r), RunDev (detected e (exec_log t))]
            else [])\<rparr>)"
  using fs
  by (cases "useEslint r")
    (simp_all add: scaffold_def and_then_def write_artifact_def writeFileSync_def mkdirSync_def
      console_log_def detectPackageManager_eq execSync_eq Let_def install_outcome_def
      install_call_def emitted_def artifacts_def project_dir_def)

lemma new_ops_scaffold:
  "fs_accepts e (fs_log t) (emitted e r) \<Longrightarrow> new_ops t (snd (scaffold e r t)) = emitted e r"
  by (simp add: all_written_iff)

lemma main_eq:
  assumes fs: "fs_accepts e (fs_log t) (emitted e r)"
      and answered: "prompts e evs (snd (console_log Banner empty_trace)) = (Answered r, t)"
  shows "main e evs =
     (if install_outcome e r t = Exited 0 then Exit 0
      else Uncaught (ExecError (install_call e r t) (install_outcome e r t)),
      \<lparr>exec_log = exec_log t @ probes_run e (exec_log t) @ [install_call e r t],
       fs_log = fs_log t @ emitted e r,
       console = console t
         @ [ProjectCreated (projectName r), InstallingWith (detected e (exec_log t))]
         @ (if install_outcome e r t = Exited 0
            then [NextSteps, CdInto (projectName r), RunDev (detected e (exec_log t))]
            else [])\<rparr>)"
  by (simp add: main_def answered scaffold_eq [OF fs])

lemma main_answered:
  assumes "prompts e evs (snd (console_log Banner empty_trace)) = (Answered r, t)"
  shows "snd (main e evs) = snd (scaffold e r t)" and "fs_log t = []"
proof -
  show "snd (main e evs) = snd (scaffold e r t)"
    by (simp add: main_def assms split: prod.splits sum.splits)
  from prompts_answered [OF assms] show "fs_log t = []"
    by (simp add: console_log_def empty_trace_def)
qed

lemma written_emitted:
  "written (emitted e r) =
     map (\<lambda>(file, content). (join [project_dir e r, file], content)) (artifacts r)"
  by (simp add: written_def emitted_def artifacts_def)

section \<open>Lemmas on the sample runs\<close>

lemma my_app_prompts:
  assumes reg: "exec_oracle e [] (registry_query ''typescript'' ''5.2.2'') = Exited 0"
  shows "prompts e my_app_events (snd (console_log Banner empty_trace)) =
     (Answered my_app,
      \<lparr>exec_log = [registry_query ''typescript'' ''5.2.2''], fs_log = [], console = [Banner]\<rparr>)"
  by (simp add: prompts_def my_app_events_def my_app_def validate_projectName_def
      validate_typescriptVersion_def versionExists_eq reg console_log_def empty_trace_def Let_def)




lemma host_with_yarn_fs: "fs_accepts host_with_yarn l ops"
  by (rule fs_accepts_all) (simp add: host_with_yarn_def)


lemma npm_detected: "detected host_install_fails l = ''npm''"
  by (simp add: detected_def probe_succeeds_def host_install_fails_def candidates_def probe_def)

lemma my_app_dir_install_fails: "project_dir host_install_fails my_app = ''/home/user/my-app''"
  by (simp add: project_dir_def host_install_fails_def my_app_def resolve_def normalizeString_def
      isAbsolute_def)

lemma install_fails_outcome: "install_outcome host_install_fails my_app t = Exited 1"
  by (simp add: install_outcome_def install_call_def npm_detected host_install_fails_def)

lemma install_fails_prompts:
  "prompts host_install_fails my_app_events (snd (console_log Banner empty_trace)) =
     (Answered my_app,
      \<lparr>exec_log = [registry_query ''typescript'' ''5.2.2''], fs_log = [], console = [Banner]\<rparr>)"
  by (rule my_app_prompts) (simp add: host_install_fails_def registry_query_def)

lemma install_fails_fs: "fs_accepts host_install_fails l ops"
  by (rule fs_accepts_all) (simp add: host_install_fails_def)

lemma host_without_network_fs: "fs_accepts host_without_network l ops"
  by (rule fs_accepts_all) (simp add: host_without_network_def)


lemma cron_prompts:
  "prompts host_with_yarn
     (replicate (Suc 0) (Submit []) @ Submit ''../../etc/cron.d'' # [Submit ''5.2.2'', Submit ''n''])
     (snd (console_log Banner empty_trace)) =
   (Answered \<lparr>projectName = ''../../etc/cron.d'', typescriptVersion = ''5.2.2'', useEslint = False\<rparr>,
    \<lparr>exec_log = [registry_query ''typescript'' ''5.2.2''], fs_log = [],
       console = [Banner, ValidationMessage ''Project name is required'']\<rparr>)"
  by (simp add: prompts_def validate_projectName_def validate_typescriptVersion_def
      versionExists_eq host_with_yarn_def registry_query_def console_log_def empty_trace_def Let_def)

lemma strict_registry_prompts:
  "prompts host_strict_registry
     [Submit ''my-app'', Submit ''9.9.9'', Submit ''4.9.5'', Submit ''n'']
     (snd (console_log Banner empty_trace)) =
   (Answered \<lparr>projectName = ''my-app'', typescriptVersion = ''4.9.5'', useEslint = False\<rparr>,
    \<lparr>exec_log = [registry_query ''typescript'' ''9.9.9'', registry_query ''typescript'' ''4.9.5''],
       fs_log = [],
       console = [Banner, ValidationMessage ''Invalid TypeScript version'']\<rparr>)"
  by (simp add: prompts_def validate_projectName_def validate_typescriptVersion_def
      versionExists_eq host_strict_registry_def registry_query_def console_log_def
      empty_trace_def Let_def)

lemma host_strict_registry_fs: "fs_accepts host_strict_registry l ops"
  by (rule fs_accepts_all) (simp add: host_strict_registry_def)

section \<open>The package manager detector\<close>

text \<open>
  Claim C5. Whatever the outcomes of the probes, \<^verbatim>\<open>detectPackageManager\<close> returns the
  first of pnpm, yarn, bun (in this order) whose \<^verbatim>\<open>--version\<close> probe exits with status 0,
  and npm when none does. The subprocesses it runs are the probes of the candidates up to
  and including that first success, in order, and nothing after it: all three when every
  probe fails. It touches neither the files nor the terminal.
\<close>

theorem detectPackageManager_first_success:
  "fst (detectPackageManager e t) =
       (case find (probe_succeeds e (exec_log t)) [0, 1, 2] of
          Some i \<Rightarrow> candidates ! i
        | None \<Rightarrow> ''npm'')
   \<and> exec_log (snd (detectPackageManager e t)) =
       exec_log t @ map probe
         (take (case find (probe_succeeds e (exec_log t)) [0, 1, 2] of
                  Some i \<Rightarrow> Suc i
                | None \<Rightarrow> 3) candidates)
   \<and> fs_log (snd (detectPackageManager e t)) = fs_log t
   \<and> console (snd (detectPackageManager e t)) = console t"
  by (simp add: detectPackageManager_eq detected_def probes_run_def)

section \<open>The version check\<close>

text \<open>
  Claim C7. For every package name and version string, \<^verbatim>\<open>versionExists\<close> runs exactly
  one subprocess, the \<^verbatim>\<open>npm view\<close> query, and never a second one. Its result is a
  boolean: true when the query exits with status 0, false for every other end of the
  query (a non-zero status, a signal, a failure to start), with no error passed on to the
  caller. It touches neither the files nor the terminal.
\<close>

theorem versionExists_fail_closed:
  "fst (versionExists e pkg v t) =
       (exec_oracle e (exec_log t) (registry_query pkg v) = Exited 0)
   \<and> exec_log (snd (versionExists e pkg v t)) = exec_log t @ [registry_query pkg v]
   \<and> fs_log (snd (versionExists e pkg v t)) = fs_log t
   \<and> console (snd (versionExists e pkg v t)) = console t"
  by (simp add: versionExists_eq)

section \<open>Cancelling\<close>

text \<open>
  Claim C6. The operator cancels at the first prompt: after any number \<open>k\<close> of empty
  submissions, which the first prompt rejects with its message, the next event is the
  cancellation. Then the run ends with exit code 1. Nothing was
  written and no directory created (the file log is empty), no subprocess was started
  (neither the version check, nor a probe, nor the install), and the terminal shows the
  banner, the \<open>k\<close> validation messages and the cancellation message only.
\<close>

theorem cancel_at_first_prompt:
  "main e (replicate k (Submit []) @ Abort # evs) =
     (Exit 1,
      \<lparr>exec_log = [], fs_log = [],
       console = Banner # replicate k (ValidationMessage ''Project name is required'')
         @ [OperationCancelled]\<rparr>)
   \<and> exit_code (fst (main e (replicate k (Submit []) @ Abort # evs))) = Some 1"
  by (simp add: main_def prompts_def projectName_rejects_empty console_log_def empty_trace_def
      exit_code_def)

section \<open>The scenario of the spec\<close>




section \<open>When the install fails\<close>

text \<open>
  Claim C2, refuted as stated. On a host where the registry answers, the probes fail and
  \<^verbatim>\<open>npm install\<close> exits with status 1, the run of the scenario writes all six files,
  starts \<^verbatim>\<open>npm install\<close> in the project directory, and ends with exit code 1, not 0.
\<close>

theorem install_failure_exit_code:
  "length (written (fs_log (snd (main host_install_fails my_app_events)))) = 6
   \<and> last (exec_log (snd (main host_install_fails my_app_events))) =
       \<lparr>command = ''npm install'', exec_cwd = Some ''/home/user/my-app''\<rparr>
   \<and> exec_oracle host_install_fails
         (butlast (exec_log (snd (main host_install_fails my_app_events))))
         (last (exec_log (snd (main host_install_fails my_app_events)))) = Exited 1
   \<and> exit_code (fst (main host_install_fails my_app_events)) = Some 1
   \<and> exit_code (fst (main host_install_fails my_app_events)) \<noteq> Some 0"
proof -
  note run = main_eq [OF install_fails_fs install_fails_prompts]
  have w: "length (written (fs_log (snd (main host_install_fails my_app_events)))) = 6"
    by (simp add: run written_emitted artifacts_def my_app_def)
  have l: "last (exec_log (snd (main host_install_fails my_app_events))) =
       \<lparr>command = ''npm install'', exec_cwd = Some ''/home/user/my-app''\<rparr>"
    by (simp add: run install_call_def npm_detected my_app_dir_install_fails)
  have o: "exec_oracle host_install_fails l' \<lparr>command = ''npm install'', exec_cwd = d\<rparr> = Exited 1"
    for l' d
    by (simp add: host_install_fails_def)
  have x: "exit_code (fst (main host_install_fails my_app_events)) = Some 1"
    by (simp add: run install_fails_outcome exit_code_def)
  from w l o x show ?thesis by simp
qed

text \<open>
  Claim C2, amended. In every run that gets its three answers and in which the directory
  is created and all artifacts are written, the install subprocess decides how the run
  ends. When it exits with status 0 the script runs to its end and the exit code is 0.
  When it ends in any other way, \<^verbatim>\<open>execSync\<close> throws, nothing catches the error, and the
  run ends with that error and exit code 1, without the closing next-steps messages. In
  both cases the directory and the artifacts written before stay as they are.
\<close>

theorem install_failure_ends_the_run:
  assumes answered: "prompts e evs (snd (console_log Banner empty_trace)) = (Answered r, t)"
      and all_written: "new_ops t (snd (main e evs)) = emitted e r"
  shows "fst (main e evs) =
           (if install_outcome e r t = Exited 0 then Exit 0
            else Uncaught (ExecError (install_call e r t) (install_outcome e r t)))
       \<and> exit_code (fst (main e evs)) = Some (if install_outcome e r t = Exited 0 then 0 else 1)
       \<and> fs_log (snd (main e evs)) = fs_log t @ emitted e r
       \<and> console (snd (main e evs)) =
           console t
           @ [ProjectCreated (projectName r), InstallingWith (detected e (exec_log t))]
           @ (if install_outcome e r t = Exited 0
              then [NextSteps, CdInto (projectName r), RunDev (detected e (exec_log t))]
              else [])"
proof -
  have "snd (main e evs) = snd (scaffold e r t)"
    by (simp add: main_def answered split: prod.splits sum.splits)
  with all_written have "fs_accepts e (fs_log t) (emitted e r)"
    by (simp add: all_written_iff)
  then show ?thesis
    by (simp add: main_eq [OF _ answered] exit_code_def)
qed

theorem install_failure_ends_the_run_witness:
  "new_ops \<lparr>exec_log = [registry_query ''typescript'' ''5.2.2''], fs_log = [], console = [Banner]\<rparr>
       (snd (main host_install_fails my_app_events)) = emitted host_install_fails my_app
   \<and> fst (main host_install_fails my_app_events) =
       Uncaught (ExecError \<lparr>command = ''npm install'', exec_cwd = Some ''/home/user/my-app''\<rparr>
         (Exited 1))
   \<and> exit_code (fst (main host_install_fails my_app_events)) = Some 1
   \<and> fs_log (snd (main host_install_fails my_app_events)) = emitted host_install_fails my_app
   \<and> console (snd (main host_install_fails my_app_events)) =
       [Banner, ProjectCreated ''my-app'', InstallingWith ''npm'']"
proof -
  have name: "projectName my_app = ''my-app''"
    by (simp add: my_app_def)
  have all_written:
    "new_ops \<lparr>exec_log = [registry_query ''typescript'' ''5.2.2''], fs_log = [], console = [Banner]\<rparr>
       (snd (main host_install_fails my_app_events)) = emitted host_install_fails my_app"
    by (simp add: main_eq [OF install_fails_fs install_fails_prompts] new_ops_def)
  from install_failure_ends_the_run [OF install_fails_prompts all_written] all_written
  show ?thesis
    by (simp add: install_fails_outcome install_call_def npm_detected my_app_dir_install_fails
        name exit_code_def)
qed

section \<open>The feature toggle\<close>





section \<open>Determinism of the artifacts\<close>

text \<open>
  Claim C8. Take two runs of the script with the same three answers, on any two hosts
  whose file systems accept the operations of the run: the hosts may differ in their
  working directory, in what their subprocesses do (so in the registry's answers and in
  the package manager detected) and in what happened before. Both runs create their
  project directory and then write the artifacts of one and the same sequence, which is
  a function of the answers alone: the same relative paths with the same contents, byte
  for byte, in the same order. When the working directories agree, the file operations
  of the two runs are equal. On any host \<open>e\<close> at all, whatever its file system does, the
  file operations of a run with these answers are an initial part of that sequence.
\<close>

theorem artifacts_depend_on_answers_only:
  assumes fs1: "fs_accepts e1 (fs_log t1) (emitted e1 r1)"
      and fs2: "fs_accepts e2 (fs_log t2) (emitted e2 r2)"
      and same: "projectName r1 = projectName r2" "typescriptVersion r1 = typescriptVersion r2"
        "useEslint r1 = useEslint r2"
  shows "new_ops t1 (snd (scaffold e1 r1 t1)) =
           MkdirRecursive (project_dir e1 r1)
             # map (\<lambda>(file, content). WriteFile (join [project_dir e1 r1, file]) content)
                 (artifacts r1)
       \<and> new_ops t2 (snd (scaffold e2 r2 t2)) =
           MkdirRecursive (project_dir e2 r2)
             # map (\<lambda>(file, content). WriteFile (join [project_dir e2 r2, file]) content)
                 (artifacts r1)
       \<and> map snd (written (new_ops t1 (snd (scaffold e1 r1 t1)))) =
           map snd (written (new_ops t2 (snd (scaffold e2 r2 t2))))
       \<and> (process_cwd e1 = process_cwd e2 \<longrightarrow>
            new_ops t1 (snd (scaffold e1 r1 t1)) = new_ops t2 (snd (scaffold e2 r2 t2)))
       \<and> (\<exists>n. new_ops t (snd (scaffold e r2 t)) =
             take n
               (MkdirRecursive (project_dir e r2)
                  # map (\<lambda>(file, content). WriteFile (join [project_dir e r2, file]) content)
                      (artifacts r1)))"
proof -
  have r: "r1 = r2"
    using same by simp
  have n1: "new_ops t1 (snd (scaffold e1 r1 t1)) = emitted e1 r1"
    using fs1 by (rule new_ops_scaffold)
  have n2: "new_ops t2 (snd (scaffold e2 r2 t2)) = emitted e2 r1"
    using fs2 by (simp add: new_ops_scaffold r)
  have any: "\<exists>n. new_ops t (snd (scaffold e r2 t)) =
             take n
               (MkdirRecursive (project_dir e r2)
                  # map (\<lambda>(file, content). WriteFile (join [project_dir e r2, file]) content)
                      (artifacts r1))"
    using scaffold_prefix [of t e r2] by (simp add: emitted_def r)
  have c: "map snd (written (emitted e r1)) = map snd (artifacts r1)" for e
    by (simp add: written_emitted case_prod_beta comp_def)
  have d: "process_cwd e1 = process_cwd e2 \<Longrightarrow> emitted e1 r1 = emitted e2 r1"
    by (simp add: emitted_def project_dir_def)
  have "new_ops t1 (snd (scaffold e1 r1 t1)) =
           MkdirRecursive (project_dir e1 r1)
             # map (\<lambda>(file, content). WriteFile (join [project_dir e1 r1, file]) content)
                 (artifacts r1)
       \<and> new_ops t2 (snd (scaffold e2 r2 t2)) =
           MkdirRecursive (project_dir e2 r2)
             # map (\<lambda>(file, content). WriteFile (join [project_dir e2 r2, file]) content)
                 (artifacts r1)
       \<and> map snd (written (new_ops t1 (snd (scaffold e1 r1 t1)))) =
           map snd (written (new_ops t2 (snd (scaffold e2 r2 t2))))
       \<and> (process_cwd e1 = process_cwd e2 \<longrightarrow>
            new_ops t1 (snd (scaffold e1 r1 t1)) = new_ops t2 (snd (scaffold e2 r2 t2)))"
    unfolding n1 n2 c using d by (simp add: emitted_def r)
  with any show ?thesis
    by blast
qed

theorem artifacts_depend_on_answers_only_witness:
  "fs_accepts host_with_yarn (fs_log empty_trace) (emitted host_with_yarn my_app)
   \<and> fs_accepts host_without_network (fs_log used_trace) (emitted host_without_network my_app)
   \<and> map snd (written (new_ops empty_trace (snd (scaffold host_with_yarn my_app empty_trace)))) =
       map snd (written (new_ops used_trace (snd (scaffold host_without_network my_app used_trace))))
   \<and> new_ops used_trace (snd (scaffold host_without_network my_app used_trace)) =
       MkdirRecursive (project_dir host_without_network my_app)
         # map (\<lambda>(file, content). WriteFile (join [project_dir host_without_network my_app, file]) content)
             (artifacts my_app)"
  using artifacts_depend_on_answers_only
      [of host_with_yarn empty_trace my_app host_without_network used_trace my_app]
    host_with_yarn_fs host_without_network_fs
  by blast

section \<open>The project name and the version string\<close>

text \<open>
  Claim C9. The first prompt accepts every name that is not empty, unchanged, and
  answers the empty name with a message and stays open. Take any run whose events begin
  with any number of empty submissions and then a name that is not empty, and in which
  the three questions get answered. The name in the answers is that name. Provided the
  file system lets the directory be created, the first file operation of the run creates
  (with its missing ancestors) the name resolved against the working directory; when the
  file system accepts all the operations, the second writes the manifest below that
  directory, and the manifest is the rendering of a document whose \<^verbatim>\<open>name\<close> is the
  name as it is, so that its text begins with the \<^verbatim>\<open>name\<close> entry holding the quoted
  name. So the name is a path: an absolute name is resolved without the working
  directory, a name with \<^verbatim>\<open>..\<close> leaves it (\<^verbatim>\<open>../../etc/cron.d\<close> in \<^verbatim>\<open>/home/user\<close> is
  \<^verbatim>\<open>/etc/cron.d\<close>) and a name with separators nests below it.
\<close>

theorem project_name_is_a_path:
  assumes nonempty: "name \<noteq> []"
      and answered: "prompts e (replicate k (Submit []) @ Submit name # evs)
        (snd (console_log Banner empty_trace)) = (Answered r, t)"
      and mkdir: "fs_oracle e [] (MkdirRecursive (resolve (process_cwd e) [process_cwd e, name]))"
  shows "text_prompt [] validate_projectName (Submit name # evs') t' = (Answered name, evs', t')
       \<and> text_prompt [] validate_projectName (Submit [] # evs') t' =
           text_prompt [] validate_projectName evs'
             (t'\<lparr>console := console t' @ [ValidationMessage ''Project name is required'']\<rparr>)
       \<and> projectName r = name
       \<and> hd (fs_log (snd (main e (replicate k (Submit []) @ Submit name # evs)))) =
           MkdirRecursive (resolve (process_cwd e) [process_cwd e, name])
       \<and> (fs_accepts e [] (emitted e r) \<longrightarrow>
            fs_log (snd (main e (replicate k (Submit []) @ Submit name # evs))) =
              MkdirRecursive (resolve (process_cwd e) [process_cwd e, name])
                # WriteFile (join [resolve (process_cwd e) [process_cwd e, name], ''package.json''])
                    (stringify 0 (package_json r))
                # map (\<lambda>(file, content).
                        WriteFile (join [resolve (process_cwd e) [process_cwd e, name], file]) content)
                    (tl (artifacts r)))
       \<and> member (package_json r) ''name'' = Some (JString name)
       \<and> (\<exists>rest. stringify 0 (package_json r) =
             ''{'' @ [CHR 0x0A] @ ''  '' @ quote ''name'' @ '': '' @ quote name @ '','' @ rest)
       \<and> (isAbsolute name \<longrightarrow>
            resolve (process_cwd e) [process_cwd e, name] =
              CHR ''/'' # normalizeString (name @ ''/'') False)
       \<and> resolve ''/home/user'' [''/home/user'', ''../../etc/cron.d''] = ''/etc/cron.d''
       \<and> resolve ''/home/user'' [''/home/user'', ''a/b/c''] = ''/home/user/a/b/c''"
proof -
  let ?evs = "replicate k (Submit []) @ Submit name # evs"
  have accept: "text_prompt [] validate_projectName (Submit name # evs') t' = (Answered name, evs', t')"
    using nonempty by (simp add: validate_projectName_def)
  have reject: "text_prompt [] validate_projectName (Submit [] # evs') t' =
           text_prompt [] validate_projectName evs'
             (t'\<lparr>console := console t' @ [ValidationMessage ''Project name is required'']\<rparr>)"
    by (rule projectName_rejects_one)
  have used: "projectName r = name"
    using nonempty answered by (rule prompts_name)
  have dir: "project_dir e r = resolve (process_cwd e) [process_cwd e, name]"
    by (simp add: project_dir_def used)
  note run = main_answered [OF answered]
  have first: "hd (fs_log (snd (main e ?evs))) =
           MkdirRecursive (resolve (process_cwd e) [process_cwd e, name])"
    using scaffold_first_op [of e t r] mkdir by (simp add: run dir new_ops_def)
  have all: "fs_log (snd (main e ?evs)) =
              MkdirRecursive (resolve (process_cwd e) [process_cwd e, name])
                # WriteFile (join [resolve (process_cwd e) [process_cwd e, name], ''package.json''])
                    (stringify 0 (package_json r))
                # map (\<lambda>(file, content).
                        WriteFile (join [resolve (process_cwd e) [process_cwd e, name], file]) content)
                    (tl (artifacts r))"
    if "fs_accepts e [] (emitted e r)"
  proof -
    from that have "fs_accepts e (fs_log t) (emitted e r)"
      by (simp add: run)
    then have "fs_log (snd (main e ?evs)) = emitted e r"
      by (simp add: scaffold_eq run)
    then show ?thesis
      by (simp add: emitted_def artifacts_def dir)
  qed
  have manifest: "member (package_json r) ''name'' = Some (JString name)"
    by (simp add: member_def package_json_def used)
  have bytes: "\<exists>rest. stringify 0 (package_json r) =
             ''{'' @ [CHR 0x0A] @ ''  '' @ quote ''name'' @ '': '' @ quote name @ '','' @ rest"
    using manifest_starts_with_name [of r] by (simp only: used)
  have absolute: "isAbsolute name \<longrightarrow>
            resolve (process_cwd e) [process_cwd e, name] =
              CHR ''/'' # normalizeString (name @ ''/'') False"
    using nonempty by (simp add: resolve_def)
  have outside: "resolve ''/home/user'' [''/home/user'', ''../../etc/cron.d''] = ''/etc/cron.d''"
    by (simp add: resolve_def normalizeString_def isAbsolute_def)
  have nested: "resolve ''/home/user'' [''/home/user'', ''a/b/c''] = ''/home/user/a/b/c''"
    by (simp add: resolve_def normalizeString_def isAbsolute_def)
  from all have all': "fs_accepts e [] (emitted e r) \<longrightarrow>
            fs_log (snd (main e ?evs)) =
              MkdirRecursive (resolve (process_cwd e) [process_cwd e, name])
                # WriteFile (join [resolve (process_cwd e) [process_cwd e, name], ''package.json''])
                    (stringify 0 (package_json r))
                # map (\<lambda>(file, content).
                        WriteFile (join [resolve (process_cwd e) [process_cwd e, name], file]) content)
                    (tl (artifacts r))"
    by (rule impI)
  show ?thesis
    by (intro conjI accept reject used first all' manifest bytes absolute outside nested)
qed

theorem project_name_is_a_path_witness:
  "''../../etc/cron.d'' \<noteq> []
   \<and> fst (prompts host_with_yarn
         [Submit [], Submit ''../../etc/cron.d'', Submit ''5.2.2'', Submit ''n'']
         (snd (console_log Banner empty_trace))) =
       Answered \<lparr>projectName = ''../../etc/cron.d'', typescriptVersion = ''5.2.2'',
         useEslint = False\<rparr>
   \<and> fs_oracle host_with_yarn [] (MkdirRecursive ''/etc/cron.d'')
   \<and> hd (fs_log (snd (main host_with_yarn
         [Submit [], Submit ''../../etc/cron.d'', Submit ''5.2.2'', Submit ''n'']))) =
       MkdirRecursive ''/etc/cron.d''
   \<and> fs_log (snd (main host_with_yarn
         [Submit [], Submit ''../../etc/cron.d'', Submit ''5.2.2'', Submit ''n''])) ! 1 =
       WriteFile ''/etc/cron.d/package.json''
         (stringify 0 (package_json \<lparr>projectName = ''../../etc/cron.d'',
            typescriptVersion = ''5.2.2'', useEslint = False\<rparr>))
   \<and> member (package_json \<lparr>projectName = ''../../etc/cron.d'', typescriptVersion = ''5.2.2'',
         useEslint = False\<rparr>) ''name'' = Some (JString ''../../etc/cron.d'')"
proof -
  have ne: "''../../etc/cron.d'' \<noteq> []"
    by simp
  have dir: "resolve (process_cwd host_with_yarn) [process_cwd host_with_yarn, ''../../etc/cron.d''] =
      ''/etc/cron.d''"
    by (simp add: host_with_yarn_def resolve_def normalizeString_def isAbsolute_def)
  have mkdir: "fs_oracle host_with_yarn []
      (MkdirRecursive (resolve (process_cwd host_with_yarn)
         [process_cwd host_with_yarn, ''../../etc/cron.d'']))"
    by (simp add: host_with_yarn_def)
  have manifest_path: "join [''/etc/cron.d'', ''package.json''] = ''/etc/cron.d/package.json''"
    by (simp add: join_def normalize_def normalizeString_def isAbsolute_def)
  from project_name_is_a_path [OF ne cron_prompts mkdir] cron_prompts mkdir host_with_yarn_fs
  show ?thesis
    by (simp add: dir manifest_path)
qed

text \<open>
  Claim C10. Take any run in which the three questions get answered and whose file
  operations the file system accepts. The version in the answers is the one the prompt
  accepted: its registry query is the last subprocess the prompts ran, and it succeeded.
  When the run's events are a name that is not empty followed by a submission at the
  version prompt, and the registry knows the version submitted (the content of the
  field, or \<^verbatim>\<open>5.2.2\<close> for an empty field), the version in the answers is that version.
  The second file operation of the run writes the manifest, which is the rendering of a
  document whose development dependencies have, under \<^verbatim>\<open>typescript\<close>, that version string
  itself, while every other entry there starts with the range operator \<^verbatim>\<open>^\<close>; in the
  text of that block the entry \<^verbatim>\<open>typescript\<close> holds the quoted version and nothing else.
\<close>

theorem typescript_version_pinned:
  assumes answered: "prompts e evs (snd (console_log Banner empty_trace)) = (Answered r, t)"
      and fs: "fs_accepts e [] (emitted e r)"
  shows "exec_log t \<noteq> []
       \<and> last (exec_log t) = registry_query ''typescript'' (typescriptVersion r)
       \<and> exec_oracle e (butlast (exec_log t)) (last (exec_log t)) = Exited 0
       \<and> (\<forall>name s evs'.
             evs = Submit name # Submit s # evs' \<and> name \<noteq> []
             \<and> exec_oracle e [] (registry_query ''typescript'' (if s = [] then ''5.2.2'' else s)) =
                 Exited 0
             \<longrightarrow> typescriptVersion r = (if s = [] then ''5.2.2'' else s))
       \<and> fs_log (snd (main e evs)) = emitted e r
       \<and> fs_log (snd (main e evs)) ! 1 =
           WriteFile (join [project_dir e r, ''package.json'']) (stringify 0 (package_json r))
       \<and> member (package_json r) ''devDependencies'' = Some (string_object (devDependencies r))
       \<and> member (string_object (devDependencies r)) ''typescript'' =
           Some (JString (typescriptVersion r))
       \<and> map_of (devDependencies r) ''typescript'' = Some (typescriptVersion r)
       \<and> list_all (\<lambda>(k, x). k = ''typescript'' \<or> take 1 x = ''^'') (devDependencies r)
       \<and> (\<exists>rest. stringify (Suc 0) (string_object (devDependencies r)) =
             ''{'' @ [CHR 0x0A]
             @ ''    '' @ quote ''@types/express'' @ '': '' @ quote ''^5.0.3'' @ '','' @ [CHR 0x0A]
             @ ''    '' @ quote ''@types/node'' @ '': '' @ quote ''^22.15.3'' @ '','' @ [CHR 0x0A]
             @ ''    '' @ quote ''ts-node'' @ '': '' @ quote ''^10.9.2'' @ '','' @ [CHR 0x0A]
             @ ''    '' @ quote ''ts-node-dev'' @ '': '' @ quote ''^2.0.0'' @ '','' @ [CHR 0x0A]
             @ ''    '' @ quote ''typescript'' @ '': '' @ quote (typescriptVersion r) @ rest)"
proof -
  note run = main_answered [OF answered]
  from prompts_answered [OF answered]
  have checked: "exec_log t \<noteq> []"
    "last (exec_log t) = registry_query ''typescript'' (typescriptVersion r)"
    "exec_oracle e (butlast (exec_log t)) (last (exec_log t)) = Exited 0"
    by blast+
  have typed: "\<forall>name s evs'.
             evs = Submit name # Submit s # evs' \<and> name \<noteq> []
             \<and> exec_oracle e [] (registry_query ''typescript'' (if s = [] then ''5.2.2'' else s)) =
                 Exited 0
             \<longrightarrow> typescriptVersion r = (if s = [] then ''5.2.2'' else s)"
  proof (intro allI impI, elim conjE)
    fix name s evs'
    assume shape: "evs = Submit name # Submit s # evs'" and name: "name \<noteq> []"
      and ok: "exec_oracle e [] (registry_query ''typescript'' (if s = [] then ''5.2.2'' else s)) =
                 Exited 0"
    have "exec_oracle e (exec_log (snd (console_log Banner empty_trace)))
        (registry_query ''typescript'' (if s = [] then ''5.2.2'' else s)) = Exited 0"
      using ok by (simp add: console_log_def empty_trace_def)
    from prompts_version [OF name this] answered shape
    show "typescriptVersion r = (if s = [] then ''5.2.2'' else s)"
      by simp
  qed
  from fs have "fs_accepts e (fs_log t) (emitted e r)"
    by (simp add: run)
  then have files: "fs_log (snd (main e evs)) = emitted e r"
    by (simp add: scaffold_eq run)
  have manifest: "fs_log (snd (main e evs)) ! 1 =
           WriteFile (join [project_dir e r, ''package.json'']) (stringify 0 (package_json r))"
    by (simp add: files emitted_def artifacts_def)
  have block: "member (package_json r) ''devDependencies'' = Some (string_object (devDependencies r))"
    by (simp add: member_def package_json_def)
  have entry: "member (string_object (devDependencies r)) ''typescript'' =
           Some (JString (typescriptVersion r))"
    "map_of (devDependencies r) ''typescript'' = Some (typescriptVersion r)"
    "list_all (\<lambda>(k, x). k = ''typescript'' \<or> take 1 x = ''^'') (devDependencies r)"
    by (simp_all add: member_def devDependencies_def string_object_def)
  show ?thesis
    by (intro conjI checked typed files manifest block entry devDependencies_text)
qed

theorem typescript_version_pinned_witness:
  "fst (prompts host_strict_registry
         [Submit ''my-app'', Submit ''9.9.9'', Submit ''4.9.5'', Submit ''n'']
         (snd (console_log Banner empty_trace))) =
       Answered \<lparr>projectName = ''my-app'', typescriptVersion = ''4.9.5'', useEslint = False\<rparr>
   \<and> fs_accepts host_strict_registry []
       (emitted host_strict_registry
          \<lparr>projectName = ''my-app'', typescriptVersion = ''4.9.5'', useEslint = False\<rparr>)
   \<and> fs_log (snd (main host_strict_registry
         [Submit ''my-app'', Submit ''9.9.9'', Submit ''4.9.5'', Submit ''n''])) ! 1 =
       WriteFile ''/home/user/my-app/package.json''
         (stringify 0 (package_json
            \<lparr>projectName = ''my-app'', typescriptVersion = ''4.9.5'', useEslint = False\<rparr>))
   \<and> map_of (devDependencies
         \<lparr>projectName = ''my-app'', typescriptVersion = ''4.9.5'', useEslint = False\<rparr>)
       ''typescript'' = Some ''4.9.5''"
proof -
  have dir: "project_dir host_strict_registry
      \<lparr>projectName = ''my-app'', typescriptVersion = ''4.9.5'', useEslint = False\<rparr> =
      ''/home/user/my-app''"
    by (simp add: project_dir_def host_strict_registry_def resolve_def normalizeString_def
        isAbsolute_def)
  have manifest_path: "join [''/home/user/my-app'', ''package.json''] = ''/home/user/my-app/package.json''"
    by (simp add: join_def normalize_def normalizeString_def isAbsolute_def)
  note pinned = typescript_version_pinned [OF strict_registry_prompts host_strict_registry_fs]
  from pinned have "fs_log (snd (main host_strict_registry
         [Submit ''my-app'', Submit ''9.9.9'', Submit ''4.9.5'', Submit ''n''])) ! 1 =
       WriteFile (join [project_dir host_strict_registry
           \<lparr>projectName = ''my-app'', typescriptVersion = ''4.9.5'', useEslint = False\<rparr>,
           ''package.json''])
         (stringify 0 (package_json
            \<lparr>projectName = ''my-app'', typescriptVersion = ''4.9.5'', useEslint = False\<rparr>))"
    by blast
  then have written: "fs_log (snd (main host_strict_registry
         [Submit ''my-app'', Submit ''9.9.9'', Submit ''4.9.5'', Submit ''n''])) ! 1 =
       WriteFile ''/home/user/my-app/package.json''
         (stringify 0 (package_json
            \<lparr>projectName = ''my-app'', typescriptVersion = ''4.9.5'', useEslint = False\<rparr>))"
    by (simp only: dir manifest_path)
  from pinned have entry: "map_of (devDependencies
         \<lparr>projectName = ''my-app'', typescriptVersion = ''4.9.5'', useEslint = False\<rparr>)
       ''typescript'' = Some ''4.9.5''"
    by simp
  have answered: "fst (prompts host_strict_registry
         [Submit ''my-app'', Submit ''9.9.9'', Submit ''4.9.5'', Submit ''n'']
         (snd (console_log Banner empty_trace))) =
       Answered \<lparr>projectName = ''my-app'', typescriptVersion = ''4.9.5'', useEslint = False\<rparr>"
    by (simp add: strict_registry_prompts)
  show ?thesis
    by (intro conjI answered host_strict_registry_fs written entry)
qed

end
